theory Spec2Isabelle
  imports Complex_Main "HOL-Library.Multiset" "HOL-Library.Char_ord"
begin

section \<open>Values of the dashboard\<close>

text \<open>
  The dashboard is JavaScript. Its numbers are modelled as exact reals together with the
  value NaN, which the code produces when it adds \<open>undefined\<close> to a number and which every
  comparison treats as false. Rounding of binary floating point is not modelled, and neither
  are the infinities: the only divisions of the program divide by a record count that is at
  least one, or are guarded by a test of that count.

  A field of a dataset record may be absent; reading it gives \<open>undefined\<close>, modelled as
  \<open>None\<close>. A field that is present holds a value of the type the data model gives it:
  a string for a dimension, a number for a measure, an integer for year, month, hour and the
  peak-hour flag. Objects used as dictionaries are association lists in the order in which
  \<open>Object.keys\<close> enumerates them; properties inherited from \<open>Object.prototype\<close> are not
  modelled. Strings are ASCII.
\<close>

datatype jsnum = NaN | Num real

fun js_add :: "jsnum \<Rightarrow> jsnum \<Rightarrow> jsnum" where
  "js_add (Num a) (Num b) = Num (a + b)"
| "js_add _ _ = NaN"

fun js_sub :: "jsnum \<Rightarrow> jsnum \<Rightarrow> jsnum" where
  "js_sub (Num a) (Num b) = Num (a - b)"
| "js_sub _ _ = NaN"


text \<open>\<open>total / count\<close> with a count that is a natural number; \<open>0 / 0\<close> is NaN.\<close>

fun js_div :: "jsnum \<Rightarrow> nat \<Rightarrow> jsnum" where
  "js_div (Num a) n = (if n = 0 then NaN else Num (a / real n))"
| "js_div NaN n = NaN"

fun js_gt :: "jsnum \<Rightarrow> jsnum \<Rightarrow> bool" where
  "js_gt (Num a) (Num b) = (a > b)"
| "js_gt _ _ = False"

fun js_lt :: "jsnum \<Rightarrow> jsnum \<Rightarrow> bool" where
  "js_lt (Num a) (Num b) = (a < b)"
| "js_lt _ _ = False"

fun js_le :: "jsnum \<Rightarrow> jsnum \<Rightarrow> bool" where
  "js_le (Num a) (Num b) = (a \<le> b)"
| "js_le _ _ = False"


text \<open>Truthiness of a number: \<open>0\<close> and NaN are falsy.\<close>

fun truthy_num :: "jsnum \<Rightarrow> bool" where
  "truthy_num NaN = False"
| "truthy_num (Num a) = (a \<noteq> 0)"

text \<open>\<open>x || d\<close> for a numeric field \<open>x\<close> that may be absent.\<close>

fun num_or :: "jsnum option \<Rightarrow> jsnum \<Rightarrow> jsnum" where
  "num_or None d = d"
| "num_or (Some x) d = (if truthy_num x then x else d)"

text \<open>\<open>sum + x\<close> for a numeric field \<open>x\<close> that may be absent: a number plus \<open>undefined\<close> is NaN.\<close>

fun add_field :: "jsnum \<Rightarrow> jsnum option \<Rightarrow> jsnum" where
  "add_field s None = NaN"
| "add_field s (Some x) = js_add s x"

section \<open>Records and filters\<close>

record telecom_record =
  state :: "string option"
  city :: "string option"
  area :: "string option"
  operator :: "string option"
  network_type :: "string option"
  year :: "int option"
  month :: "int option"
  hour :: "int option"
  is_peak_hour :: "int option"
  download_mbps :: "jsnum option"
  upload_mbps :: "jsnum option"
  latency_ms :: "jsnum option"
  confidence_score :: "jsnum option"
  latitude :: "jsnum option"
  longitude :: "jsnum option"

text \<open>The filter object of \<open>DataProcessor\<close>: five properties, each a string.\<close>

record filters =
  f_state :: string
  f_city :: string
  f_area :: string
  f_network :: string
  f_operator :: string

record data_processor =
  rawData :: "telecom_record list"
  filteredData :: "telecom_record list"
  dp_filters :: filters

text \<open>
  The filter object of \<open>TelecomDataService.filterData\<close>. A property may be absent; the
  admin controller keeps \<open>years\<close> an array (an absent one and an empty one both impose
  nothing) and \<open>month_start\<close> an integer. \<open>parseInt\<close> of an integer is that integer.
\<close>

record admin_filters =
  af_state :: "string option"
  af_city :: "string option"
  af_operator :: "string option"
  af_network_type :: "string option"
  af_year :: "int option"
  af_years :: "int list"
  af_month_start :: "int option"

text \<open>\<open>filters.x && filters.x !== 'All'\<close>, and the truthiness of an integer property.\<close>

definition selects :: "string option \<Rightarrow> bool" where
  "selects v = (case v of None \<Rightarrow> False | Some s \<Rightarrow> s \<noteq> [] \<and> s \<noteq> ''All'')"

definition truthy_int :: "int option \<Rightarrow> bool" where
  "truthy_int v = (case v of None \<Rightarrow> False | Some i \<Rightarrow> i \<noteq> 0)"

definition keep_filtered :: "admin_filters \<Rightarrow> telecom_record \<Rightarrow> bool" where
  "keep_filtered f r =
     (if selects (af_state f) \<and> state r \<noteq> af_state f then False
      else if selects (af_city f) \<and> city r \<noteq> af_city f then False
      else if selects (af_operator f) \<and> operator r \<noteq> af_operator f then False
      else if selects (af_network_type f) \<and> network_type r \<noteq> af_network_type f then False
      else if truthy_int (af_year f) \<and> year r \<noteq> af_year f then False
      else if af_years f \<noteq> [] \<and> year r \<notin> set (map Some (af_years f)) then False
      else if truthy_int (af_month_start f) \<and> month r \<noteq> af_month_start f then False
      else True)"

definition filterData :: "admin_filters \<Rightarrow> telecom_record list \<Rightarrow> telecom_record list" where
  "filterData f raw = filter (keep_filtered f) raw"

definition admin_defaults :: admin_filters where
  "admin_defaults = \<lparr>af_state = Some ''All'', af_city = Some ''All'', af_operator = Some ''All'',
     af_network_type = Some ''All'', af_year = None, af_years = [], af_month_start = Some 1\<rparr>"

text \<open>The callback of \<open>rawData.filter\<close> in \<open>DataProcessor.applyFilters\<close>.\<close>

definition keep_record :: "filters \<Rightarrow> telecom_record \<Rightarrow> bool" where
  "keep_record f r =
     (if f_state f \<noteq> ''All'' \<and> state r \<noteq> Some (f_state f) then False
      else if f_city f \<noteq> ''All'' \<and> city r \<noteq> Some (f_city f) then False
      else if f_area f \<noteq> ''All'' \<and> area r \<noteq> Some (f_area f) then False
      else if f_network f \<noteq> ''All'' \<and> network_type r \<noteq> Some (f_network f) then False
      else if f_operator f \<noteq> ''All'' \<and> operator r \<noteq> Some (f_operator f) then False
      else True)"

definition applyFilters :: "data_processor \<Rightarrow> data_processor" where
  "applyFilters dp = dp\<lparr>filteredData := filter (keep_record (dp_filters dp)) (rawData dp)\<rparr>"

text \<open>
  \<open>DataProcessor.updateFilter\<close>. The assignment \<open>this.filters[filterName] = value\<close> with a
  name other than the five properties adds a property that nothing reads; the five
  properties are then unchanged.
\<close>

definition set_filter :: "string \<Rightarrow> string \<Rightarrow> filters \<Rightarrow> filters" where
  "set_filter filterName v f =
     (if filterName = ''state'' then f\<lparr>f_state := v\<rparr>
      else if filterName = ''city'' then f\<lparr>f_city := v\<rparr>
      else if filterName = ''area'' then f\<lparr>f_area := v\<rparr>
      else if filterName = ''network'' then f\<lparr>f_network := v\<rparr>
      else if filterName = ''operator'' then f\<lparr>f_operator := v\<rparr>
      else f)"

definition reset_dependent :: "string \<Rightarrow> filters \<Rightarrow> filters" where
  "reset_dependent filterName f =
     (if filterName = ''state'' then f\<lparr>f_city := ''All'', f_area := ''All''\<rparr>
      else if filterName = ''city'' then f\<lparr>f_area := ''All''\<rparr>
      else f)"

definition updateFilter :: "string \<Rightarrow> string \<Rightarrow> data_processor \<Rightarrow> data_processor" where
  "updateFilter filterName v dp =
     applyFilters (dp\<lparr>dp_filters := reset_dependent filterName (set_filter filterName v (dp_filters dp))\<rparr>)"


section \<open>Strings and objects\<close>

text \<open>\<open>String.prototype.toUpperCase\<close> on ASCII: the letters a to z move to A to Z.\<close>

definition is_lower :: "char \<Rightarrow> bool" where
  "is_lower c = (CHR ''a'' \<le> c \<and> c \<le> CHR ''z'')"

definition upper_char :: "char \<Rightarrow> char" where
  "upper_char c = (if is_lower c then char_of (of_char c - (32::nat)) else c)"

definition toUpperCase :: "string \<Rightarrow> string" where
  "toUpperCase s = map upper_char s"

text \<open>\<open>s || d\<close> for a string field that may be absent: \<open>undefined\<close> and \<open>""\<close> are falsy.\<close>

fun str_or :: "string option \<Rightarrow> string \<Rightarrow> string" where
  "str_or None d = d"
| "str_or (Some s) d = (if s = [] then d else s)"

text \<open>
  Conversion of a value to a property key or to a piece of a template literal:
  \<open>undefined\<close> becomes the string "undefined", an integer its decimal numeral (integers
  of at least 22 digits, which JavaScript prints with an exponent, are not modelled).
\<close>

definition key_of :: "string option \<Rightarrow> string" where
  "key_of v = (case v of None \<Rightarrow> ''undefined'' | Some s \<Rightarrow> s)"

definition digit_char :: "nat \<Rightarrow> char" where
  "digit_char d = char_of (48 + d)"

fun show_nat :: "nat \<Rightarrow> string" where
  "show_nat n = (if n < 10 then [digit_char n] else show_nat (n div 10) @ [digit_char (n mod 10)])"

declare show_nat.simps [simp del]

definition show_int :: "int \<Rightarrow> string" where
  "show_int i = (if i < 0 then CHR ''-'' # show_nat (nat (- i)) else show_nat (nat i))"

definition key_of_int :: "int option \<Rightarrow> string" where
  "key_of_int v = (case v of None \<Rightarrow> ''undefined'' | Some i \<Rightarrow> show_int i)"

text \<open>
  An object used as a dictionary. \<open>Object.keys\<close>, \<open>Object.values\<close> and \<open>Object.entries\<close>
  enumerate the array-index keys first (the canonical decimal numerals below \<open>2^32 - 1\<close>),
  in ascending numeric order, and then the other keys in the order of their creation.
  Assigning to an existing key keeps its place.
\<close>

type_synonym 'v obj = "(string \<times> 'v) list"

definition is_digit :: "char \<Rightarrow> bool" where
  "is_digit c = (CHR ''0'' \<le> c \<and> c \<le> CHR ''9'')"

definition index_value :: "string \<Rightarrow> nat" where
  "index_value s = foldl (\<lambda>n c. 10 * n + (of_char c - 48)) 0 s"

definition is_array_index :: "string \<Rightarrow> bool" where
  "is_array_index s =
     (s \<noteq> [] \<and> list_all is_digit s \<and> (if hd s = CHR ''0'' then length s = 1 else True)
      \<and> index_value s < 4294967295)"

definition obj_get :: "string \<Rightarrow> 'v obj \<Rightarrow> 'v option" where
  "obj_get k ob = map_of ob k"

fun obj_replace :: "string \<Rightarrow> 'v \<Rightarrow> 'v obj \<Rightarrow> 'v obj" where
  "obj_replace k v [] = []"
| "obj_replace k v (e # rest) = (if fst e = k then (k, v) # rest else e # obj_replace k v rest)"

fun insert_index :: "string \<Rightarrow> 'v \<Rightarrow> 'v obj \<Rightarrow> 'v obj" where
  "insert_index k v [] = [(k, v)]"
| "insert_index k v (e # rest) =
     (if is_array_index (fst e) \<and> index_value (fst e) < index_value k
      then e # insert_index k v rest else (k, v) # e # rest)"

definition obj_set :: "string \<Rightarrow> 'v \<Rightarrow> 'v obj \<Rightarrow> 'v obj" where
  "obj_set k v ob =
     (if obj_get k ob \<noteq> None then obj_replace k v ob
      else if is_array_index k then insert_index k v ob
      else ob @ [(k, v)])"

section \<open>KPI calculation\<close>

text \<open>
  A value of a metrics object: a number, or the string that \<open>toFixed(2)\<close> makes of a
  number. The string is represented by the number that was formatted; \<open>parseFloat\<close> reads
  back that number rounded to two decimals (half away from zero), and reads NaN from
  \<open>undefined\<close> and from the string "NaN". Numbers of 22 digits and more, which
  \<open>toFixed\<close> prints with an exponent, are not modelled.
\<close>

datatype metric = Number jsnum | Fixed2 jsnum

definition round2 :: "real \<Rightarrow> real" where
  "round2 x = (if x < 0 then - (real_of_int \<lfloor>- x * 100 + 1 / 2\<rfloor> / 100)
               else real_of_int \<lfloor>x * 100 + 1 / 2\<rfloor> / 100)"

fun parseFloat :: "metric option \<Rightarrow> jsnum" where
  "parseFloat None = NaN"
| "parseFloat (Some (Number x)) = x"
| "parseFloat (Some (Fixed2 NaN)) = NaN"
| "parseFloat (Some (Fixed2 (Num x))) = Num (round2 x)"

text \<open>
  The metrics object handed to the KPI cards and to the insights: the properties that
  \<open>DataProcessor.calculateKPIs\<close> and \<open>TelecomDataService.getAggregatedMetrics\<close> write and
  that \<open>InsightsManager.renderInsights\<close> reads. \<open>None\<close> is a property the object lacks.
\<close>

record metrics =
  bestOperator :: "string option"
  avgDownload :: "metric option"
  avgUpload :: "metric option"
  avgScore :: "metric option"
  avgLatency :: "metric option"
  avgLatencyMs :: "metric option"
  avgNetworkScore :: "metric option"
  totalRecords :: "metric option"
  recordCount :: "metric option"

definition no_metrics :: metrics where
  "no_metrics = \<lparr>bestOperator = None, avgDownload = None, avgUpload = None, avgScore = None,
     avgLatency = None, avgLatencyMs = None, avgNetworkScore = None, totalRecords = None,
     recordCount = None\<rparr>"

record bucket =
  total :: jsnum
  count :: nat

definition average :: "bucket \<Rightarrow> jsnum" where
  "average b = js_div (total b) (count b)"

text \<open>The operator key of the KPI grouping: \<open>(r.operator || 'Unknown').toUpperCase()\<close>.\<close>

definition kpi_operator :: "telecom_record \<Rightarrow> string" where
  "kpi_operator r = toUpperCase (str_or (operator r) ''Unknown'')"

definition score_step :: "telecom_record \<Rightarrow> bucket obj \<Rightarrow> bucket obj" where
  "score_step r operatorScores =
     (let op = kpi_operator r;
          b = (case obj_get op operatorScores of None \<Rightarrow> \<lparr>total = Num 0, count = 0\<rparr> | Some b \<Rightarrow> b)
      in obj_set op (b\<lparr>total := js_add (total b) (num_or (confidence_score r) (Num 0)),
                       count := count b + 1\<rparr>) operatorScores)"

definition operatorScores :: "telecom_record list \<Rightarrow> bucket obj" where
  "operatorScores recs = fold score_step recs []"

text \<open>The loop over \<open>Object.entries(operatorScores)\<close>, from \<open>'N/A'\<close> and a best score of 0.\<close>

definition kpi_best_step :: "string \<times> bucket \<Rightarrow> string \<times> jsnum \<Rightarrow> string \<times> jsnum" where
  "kpi_best_step e st =
     (let avgOpScore = average (snd e)
      in if js_gt avgOpScore (snd st) then (fst e, avgOpScore) else st)"

definition kpi_best :: "bucket obj \<Rightarrow> string \<times> jsnum" where
  "kpi_best entries = fold kpi_best_step entries (''N/A'', Num 0)"

definition calculateKPIs :: "telecom_record list \<Rightarrow> metrics" where
  "calculateKPIs recs =
     (if length recs = 0
      then no_metrics\<lparr>bestOperator := Some ''N/A'', avgDownload := Some (Number (Num 0)),
             avgUpload := Some (Number (Num 0)), avgScore := Some (Number (Num 0))\<rparr>
      else
        let avgDownload = js_div (fold (\<lambda>r sum. add_field sum (download_mbps r)) recs (Num 0)) (length recs);
            avgUpload = js_div (fold (\<lambda>r sum. add_field sum (upload_mbps r)) recs (Num 0)) (length recs);
            avgScore = js_div (fold (\<lambda>r sum. js_add sum (num_or (confidence_score r) (Num 0))) recs (Num 0)) (length recs)
        in no_metrics\<lparr>bestOperator := Some (fst (kpi_best (operatorScores recs))),
             avgDownload := Some (Fixed2 avgDownload), avgUpload := Some (Fixed2 avgUpload),
             avgScore := Some (Fixed2 avgScore)\<rparr>)"

text \<open>\<open>TelecomDataService.getAggregatedMetrics\<close>; \<open>None\<close> is the \<open>null\<close> it returns.\<close>

record metric_sums =
  s_download :: jsnum
  s_upload :: jsnum
  s_latency :: jsnum
  s_networkScore :: jsnum

definition sums_step :: "telecom_record \<Rightarrow> metric_sums \<Rightarrow> metric_sums" where
  "sums_step r acc =
     acc\<lparr>s_download := js_add (s_download acc) (num_or (download_mbps r) (Num 0)),
         s_upload := js_add (s_upload acc) (num_or (upload_mbps r) (Num 0)),
         s_latency := js_add (s_latency acc) (num_or (latency_ms r) (Num 0)),
         s_networkScore := js_add (s_networkScore acc) (num_or (confidence_score r) (Num 0))\<rparr>"

definition getAggregatedMetrics :: "telecom_record list \<Rightarrow> metrics option" where
  "getAggregatedMetrics data =
     (if length data = 0 then None
      else
        let total = length data;
            acc = fold sums_step data
                     \<lparr>s_download = Num 0, s_upload = Num 0, s_latency = Num 0, s_networkScore = Num 0\<rparr>
        in Some (no_metrics\<lparr>avgDownload := Some (Fixed2 (js_div (s_download acc) total)),
                   avgUpload := Some (Fixed2 (js_div (s_upload acc) total)),
                   avgLatency := Some (Fixed2 (js_div (s_latency acc) total)),
                   avgNetworkScore := Some (Fixed2 (js_div (s_networkScore acc) total)),
                   totalRecords := Some (Number (Num (real total)))\<rparr>))"

text \<open>Sample data: the object \<open>{}\<close>, and a processor holding two records.\<close>

definition empty_record :: telecom_record where
  "empty_record = \<lparr>state = None, city = None, area = None, operator = None,
     network_type = None, year = None, month = None, hour = None, is_peak_hour = None,
     download_mbps = None, upload_mbps = None, latency_ms = None, confidence_score = None,
     latitude = None, longitude = None\<rparr>"

definition all_filters :: filters where
  "all_filters = \<lparr>f_state = ''All'', f_city = ''All'', f_area = ''All'',
     f_network = ''All'', f_operator = ''All''\<rparr>"

definition sample_processor :: data_processor where
  "sample_processor =
     \<lparr>rawData = [empty_record\<lparr>state := Some ''Delhi'', city := Some ''New Delhi''\<rparr>,
                 empty_record\<lparr>state := Some ''Kerala'', city := Some ''Kochi''\<rparr>],
      filteredData = [],
      dp_filters = all_filters\<lparr>f_city := ''Kochi'', f_area := ''Fort''\<rparr>\<rparr>"











section \<open>Insights: operator stability\<close>

text \<open>Truthiness of a property of the metrics object: a string of \<open>toFixed\<close> is never empty.\<close>

fun truthy_metric :: "metric option \<Rightarrow> bool" where
  "truthy_metric None = False"
| "truthy_metric (Some (Number x)) = truthy_num x"
| "truthy_metric (Some (Fixed2 x)) = True"

definition metric_or :: "metric option \<Rightarrow> metric option \<Rightarrow> metric option" where
  "metric_or a b = (if truthy_metric a then a else b)"

text \<open>
  The "Operator Analysis" branch of \<open>InsightsManager.renderInsights\<close>: the value it assigns
  to \<open>item.trend\<close>, from the \<open>down\<close>, \<open>up\<close> and \<open>lat\<close> it reads off the metrics.
\<close>

definition operator_analysis_trend :: "metrics \<Rightarrow> string" where
  "operator_analysis_trend m =
     (let down = num_or (Some (parseFloat (avgDownload m))) (Num 0);
          up = num_or (Some (parseFloat (avgUpload m))) (Num 0);
          lat = num_or (Some (parseFloat (metric_or (avgLatency m) (avgLatencyMs m)))) (Num 50)
      in if js_gt down (Num 150) \<and> js_gt up (Num 40) \<and> js_lt lat (Num 40) then ''stable''
         else if js_lt down (Num 100) \<and> js_lt up (Num 30) \<and> js_gt lat (Num 60) then ''unstable''
         else ''neutral'')"

section \<open>Area-wise table\<close>

text \<open>
  \<open>Array.prototype.sort\<close> with a comparator: a stable sort, in which an element moves
  behind another only when the comparator returns a number greater than 0 (NaN counts as 0).
  With a comparator that is not a consistent ordering JavaScript leaves the order to the
  implementation; this insertion sort is then one of the permitted results.
\<close>

fun insert_sorted :: "('a \<Rightarrow> 'a \<Rightarrow> jsnum) \<Rightarrow> 'a \<Rightarrow> 'a list \<Rightarrow> 'a list" where
  "insert_sorted cmp x [] = [x]"
| "insert_sorted cmp x (y # ys) =
     (if js_gt (cmp x y) (Num 0) then y # insert_sorted cmp x ys else x # y # ys)"

definition js_sort :: "('a \<Rightarrow> 'a \<Rightarrow> jsnum) \<Rightarrow> 'a list \<Rightarrow> 'a list" where
  "js_sort cmp xs = foldr (insert_sorted cmp) xs []"

record area_acc =
  acc_area :: "string option"
  acc_operator :: "string option"
  downloadTotal :: jsnum
  uploadTotal :: jsnum
  scoreTotal :: jsnum
  acc_count :: nat

record area_row =
  row_area :: "string option"
  row_operator :: "string option"
  row_avgDownload :: metric
  row_avgUpload :: metric
  row_avgScore :: metric

text \<open>The key \<open>`${r.area}_${r.operator}`\<close> of \<open>DataProcessor.getAreaWiseData\<close>.\<close>

definition area_key :: "telecom_record \<Rightarrow> string" where
  "area_key r = key_of (area r) @ ''_'' @ key_of (operator r)"

definition area_table_step :: "telecom_record \<Rightarrow> area_acc obj \<Rightarrow> area_acc obj" where
  "area_table_step r data =
     (let key = area_key r;
          item = (case obj_get key data of
                    None \<Rightarrow> \<lparr>acc_area = area r, acc_operator = operator r, downloadTotal = Num 0,
                              uploadTotal = Num 0, scoreTotal = Num 0, acc_count = 0\<rparr>
                  | Some item \<Rightarrow> item)
      in obj_set key
           (item\<lparr>downloadTotal := add_field (downloadTotal item) (download_mbps r),
                 uploadTotal := add_field (uploadTotal item) (upload_mbps r),
                 scoreTotal := add_field (scoreTotal item) (confidence_score r),
                 acc_count := acc_count item + 1\<rparr>) data)"

definition area_table_row :: "area_acc \<Rightarrow> area_row" where
  "area_table_row item =
     \<lparr>row_area = acc_area item, row_operator = acc_operator item,
      row_avgDownload = Fixed2 (js_div (downloadTotal item) (acc_count item)),
      row_avgUpload = Fixed2 (js_div (uploadTotal item) (acc_count item)),
      row_avgScore = Fixed2 (js_div (scoreTotal item) (acc_count item))\<rparr>"

definition getAreaWiseData :: "telecom_record list \<Rightarrow> area_row list" where
  "getAreaWiseData recs =
     (let data = fold area_table_step recs [];
          tableData = map (\<lambda>e. area_table_row (snd e)) data
      in js_sort (\<lambda>a b. js_sub (parseFloat (Some (row_avgScore b))) (parseFloat (Some (row_avgScore a))))
           tableData)"


record table_manager =
  sort_column :: string
  sort_direction :: string
  tableData :: "area_row list"













definition sample_metrics :: "real \<Rightarrow> real \<Rightarrow> real \<Rightarrow> metrics" where
  "sample_metrics d u l = no_metrics\<lparr>avgDownload := Some (Fixed2 (Num d)),
     avgUpload := Some (Fixed2 (Num u)), avgLatency := Some (Fixed2 (Num l))\<rparr>"


section \<open>Chart aggregation\<close>

text \<open>
  \<open>TelecomDataService.getChartData\<close> fills six groupings in one pass over the records.
  Its sums add the measure as it is: nothing replaces a missing measure by 0.
\<close>

record peak_bucket =
  peakSum :: jsnum
  peakCount :: nat
  nonPeakSum :: jsnum
  nonPeakCount :: nat

record sum_count =
  sc_sum :: jsnum
  sc_count :: nat

record chart_data =
  downloadByOpPeak :: "peak_bucket obj"
  latencyByCityNet :: "sum_count obj obj"
  coverageGrowth :: "nat obj obj"
  downloadByYearOp :: "sum_count obj obj"
  latencyByYearPeak :: "peak_bucket obj"
  scoreByOp :: "sum_count obj"

text \<open>Groupings 1 and 5: a peak and a non-peak sum and count under one key.\<close>

definition add_peak :: "string \<Rightarrow> jsnum option \<Rightarrow> telecom_record \<Rightarrow> peak_bucket obj \<Rightarrow> peak_bucket obj" where
  "add_peak key x r ob =
     (let b = (case obj_get key ob of
                 None \<Rightarrow> \<lparr>peakSum = Num 0, peakCount = 0, nonPeakSum = Num 0, nonPeakCount = 0\<rparr>
               | Some b \<Rightarrow> b)
      in obj_set key
           (if is_peak_hour r = Some 1
            then b\<lparr>peakSum := add_field (peakSum b) x, peakCount := peakCount b + 1\<rparr>
            else b\<lparr>nonPeakSum := add_field (nonPeakSum b) x, nonPeakCount := nonPeakCount b + 1\<rparr>) ob)"

text \<open>Grouping 2: per city a bucket for '4G' and one for '5G'; another network type is skipped.\<close>

definition add_city_net :: "telecom_record \<Rightarrow> sum_count obj obj \<Rightarrow> sum_count obj obj" where
  "add_city_net r ob =
     (let inner = (case obj_get (key_of (city r)) ob of
                     None \<Rightarrow> [(''4G'', \<lparr>sc_sum = Num 0, sc_count = 0\<rparr>),
                               (''5G'', \<lparr>sc_sum = Num 0, sc_count = 0\<rparr>)]
                   | Some inner \<Rightarrow> inner)
      in obj_set (key_of (city r))
           (case obj_get (key_of (network_type r)) inner of
              None \<Rightarrow> inner
            | Some b \<Rightarrow> obj_set (key_of (network_type r))
                         (b\<lparr>sc_sum := add_field (sc_sum b) (latency_ms r), sc_count := sc_count b + 1\<rparr>)
                         inner) ob)"

text \<open>Grouping 3: per year a counter for '4G' and one for '5G'.\<close>

definition add_coverage :: "telecom_record \<Rightarrow> nat obj obj \<Rightarrow> nat obj obj" where
  "add_coverage r ob =
     (let inner = (case obj_get (key_of_int (year r)) ob of
                     None \<Rightarrow> [(''4G'', 0), (''5G'', 0)]
                   | Some inner \<Rightarrow> inner)
      in obj_set (key_of_int (year r))
           (case obj_get (key_of (network_type r)) inner of
              None \<Rightarrow> inner
            | Some n \<Rightarrow> obj_set (key_of (network_type r)) (n + 1) inner) ob)"

text \<open>Grouping 6, and the inner step of grouping 4: a sum and a count under one key.\<close>

definition add_sum_count :: "string \<Rightarrow> jsnum option \<Rightarrow> sum_count obj \<Rightarrow> sum_count obj" where
  "add_sum_count key x ob =
     (let b = (case obj_get key ob of None \<Rightarrow> \<lparr>sc_sum = Num 0, sc_count = 0\<rparr> | Some b \<Rightarrow> b)
      in obj_set key (b\<lparr>sc_sum := add_field (sc_sum b) x, sc_count := sc_count b + 1\<rparr>) ob)"

text \<open>Grouping 4: per year, per operator.\<close>

definition add_year_op :: "telecom_record \<Rightarrow> sum_count obj obj \<Rightarrow> sum_count obj obj" where
  "add_year_op r ob =
     (let inner = (case obj_get (key_of_int (year r)) ob of None \<Rightarrow> [] | Some inner \<Rightarrow> inner)
      in obj_set (key_of_int (year r))
           (add_sum_count (key_of (operator r)) (download_mbps r) inner) ob)"

definition chart_step :: "telecom_record \<Rightarrow> chart_data \<Rightarrow> chart_data" where
  "chart_step r cd =
     \<lparr>downloadByOpPeak = add_peak (key_of (operator r)) (download_mbps r) r (downloadByOpPeak cd),
      latencyByCityNet = add_city_net r (latencyByCityNet cd),
      coverageGrowth = add_coverage r (coverageGrowth cd),
      downloadByYearOp = add_year_op r (downloadByYearOp cd),
      latencyByYearPeak = add_peak (key_of_int (year r)) (latency_ms r) r (latencyByYearPeak cd),
      scoreByOp = add_sum_count (key_of (operator r)) (confidence_score r) (scoreByOp cd)\<rparr>"

definition getChartData :: "telecom_record list \<Rightarrow> chart_data" where
  "getChartData data =
     fold chart_step data
       \<lparr>downloadByOpPeak = [], latencyByCityNet = [], coverageGrowth = [], downloadByYearOp = [],
        latencyByYearPeak = [], scoreByOp = []\<rparr>"

text \<open>
  The averages the admin charts draw: \<open>count ? sum / count : 0\<close>. The labels are the keys
  of the grouping, and \<open>data[op]\<close> for a label is the entry of that key.
\<close>

definition guarded_average :: "jsnum \<Rightarrow> nat \<Rightarrow> jsnum" where
  "guarded_average s c = (if c \<noteq> 0 then js_div s c else Num 0)"

definition renderDownloadOpChart :: "peak_bucket obj \<Rightarrow> string list \<times> jsnum list \<times> jsnum list" where
  "renderDownloadOpChart data =
     (map fst data,
      map (\<lambda>e. guarded_average (peakSum (snd e)) (peakCount (snd e))) data,
      map (\<lambda>e. guarded_average (nonPeakSum (snd e)) (nonPeakCount (snd e))) data)"

definition renderScoreOpChart :: "sum_count obj \<Rightarrow> string list \<times> jsnum list" where
  "renderScoreOpChart data =
     (map fst data, map (\<lambda>e. guarded_average (sc_sum (snd e)) (sc_count (snd e))) data)"










section \<open>Map data and the best operator of an area\<close>








text \<open>
  \<open>MapManager.updateMap\<close>, first loop: per area and per operator, as the record spells
  it, the total and the count of the confidence scores.
\<close>

definition add_bucket :: "string \<Rightarrow> jsnum option \<Rightarrow> bucket obj \<Rightarrow> bucket obj" where
  "add_bucket key x ob =
     (let b = (case obj_get key ob of None \<Rightarrow> \<lparr>total = Num 0, count = 0\<rparr> | Some b \<Rightarrow> b)
      in obj_set key (b\<lparr>total := add_field (total b) x, count := count b + 1\<rparr>) ob)"

definition area_operator_step :: "telecom_record \<Rightarrow> bucket obj obj \<Rightarrow> bucket obj obj" where
  "area_operator_step record areaOperators =
     (let key = key_of (area record);
          inner = (case obj_get key areaOperators of None \<Rightarrow> [] | Some inner \<Rightarrow> inner)
      in obj_set key (add_bucket (key_of (operator record)) (confidence_score record) inner)
           areaOperators)"

definition areaOperators :: "telecom_record list \<Rightarrow> bucket obj obj" where
  "areaOperators recs = fold area_operator_step recs []"















section \<open>Filtering\<close>

text \<open>
  C2. For every raw collection and every filter state, \<open>applyFilters\<close> keeps exactly the
  records that agree with every dimension whose selected value is not "All" (conjunction
  over the dimensions, order and multiplicity of the raw collection preserved); with every
  dimension "All" it keeps the whole collection; and what it keeps is always part of the raw
  collection. \<open>filterData\<close> of the admin view does the same over its own dimensions, where a
  dimension that is absent or empty constrains nothing either, a year list constrains by
  membership, and the month always constrains unless it is absent or 0.
\<close>

theorem applyFilters_exact:
  "filteredData (applyFilters dp) =
     filter (\<lambda>r. (f_state (dp_filters dp) \<noteq> ''All'' \<longrightarrow> state r = Some (f_state (dp_filters dp)))
               \<and> (f_city (dp_filters dp) \<noteq> ''All'' \<longrightarrow> city r = Some (f_city (dp_filters dp)))
               \<and> (f_area (dp_filters dp) \<noteq> ''All'' \<longrightarrow> area r = Some (f_area (dp_filters dp)))
               \<and> (f_network (dp_filters dp) \<noteq> ''All'' \<longrightarrow> network_type r = Some (f_network (dp_filters dp)))
               \<and> (f_operator (dp_filters dp) \<noteq> ''All'' \<longrightarrow> operator r = Some (f_operator (dp_filters dp))))
            (rawData dp)
   \<and> (f_state (dp_filters dp) = ''All'' \<and> f_city (dp_filters dp) = ''All''
        \<and> f_area (dp_filters dp) = ''All'' \<and> f_network (dp_filters dp) = ''All''
        \<and> f_operator (dp_filters dp) = ''All''
      \<longrightarrow> filteredData (applyFilters dp) = rawData dp)
   \<and> set (filteredData (applyFilters dp)) \<subseteq> set (rawData dp)
   \<and> rawData (applyFilters dp) = rawData dp
   \<and> dp_filters (applyFilters dp) = dp_filters dp
   \<and> filterData f raw =
       filter (\<lambda>r. (selects (af_state f) \<longrightarrow> state r = af_state f)
                 \<and> (selects (af_city f) \<longrightarrow> city r = af_city f)
                 \<and> (selects (af_operator f) \<longrightarrow> operator r = af_operator f)
                 \<and> (selects (af_network_type f) \<longrightarrow> network_type r = af_network_type f)
                 \<and> (truthy_int (af_year f) \<longrightarrow> year r = af_year f)
                 \<and> (af_years f \<noteq> [] \<longrightarrow> year r \<in> set (map Some (af_years f)))
                 \<and> (truthy_int (af_month_start f) \<longrightarrow> month r = af_month_start f))
              raw
   \<and> (\<not> selects (af_state f) \<and> \<not> selects (af_city f) \<and> \<not> selects (af_operator f)
        \<and> \<not> selects (af_network_type f) \<and> \<not> truthy_int (af_year f) \<and> af_years f = []
        \<and> \<not> truthy_int (af_month_start f)
      \<longrightarrow> filterData f raw = raw)
   \<and> set (filterData f raw) \<subseteq> set raw"
proof -
  have eq: "keep_record f = (\<lambda>r. (f_state f \<noteq> ''All'' \<longrightarrow> state r = Some (f_state f))
               \<and> (f_city f \<noteq> ''All'' \<longrightarrow> city r = Some (f_city f))
               \<and> (f_area f \<noteq> ''All'' \<longrightarrow> area r = Some (f_area f))
               \<and> (f_network f \<noteq> ''All'' \<longrightarrow> network_type r = Some (f_network f))
               \<and> (f_operator f \<noteq> ''All'' \<longrightarrow> operator r = Some (f_operator f)))" for f
    by (rule ext) (simp add: keep_record_def)
  have all: "keep_record f = (\<lambda>r. True)"
    if "f_state f = ''All''" "f_city f = ''All''" "f_area f = ''All''"
       "f_network f = ''All''" "f_operator f = ''All''" for f
    using that by (simp add: eq)
  have feq: "keep_filtered f = (\<lambda>r. (selects (af_state f) \<longrightarrow> state r = af_state f)
                 \<and> (selects (af_city f) \<longrightarrow> city r = af_city f)
                 \<and> (selects (af_operator f) \<longrightarrow> operator r = af_operator f)
                 \<and> (selects (af_network_type f) \<longrightarrow> network_type r = af_network_type f)
                 \<and> (truthy_int (af_year f) \<longrightarrow> year r = af_year f)
                 \<and> (af_years f \<noteq> [] \<longrightarrow> year r \<in> set (map Some (af_years f)))
                 \<and> (truthy_int (af_month_start f) \<longrightarrow> month r = af_month_start f))"
    by (rule ext) (simp add: keep_filtered_def)
  have fall: "filterData f raw = raw"
    if "\<not> selects (af_state f)" "\<not> selects (af_city f)" "\<not> selects (af_operator f)"
       "\<not> selects (af_network_type f)" "\<not> truthy_int (af_year f)" "af_years f = []"
       "\<not> truthy_int (af_month_start f)"
    using that by (simp add: filterData_def feq)
  have p1: "filteredData (applyFilters dp) = filter (keep_record (dp_filters dp)) (rawData dp)"
    by (simp add: applyFilters_def)
  have p2: "f_state (dp_filters dp) = ''All'' \<and> f_city (dp_filters dp) = ''All''
        \<and> f_area (dp_filters dp) = ''All'' \<and> f_network (dp_filters dp) = ''All''
        \<and> f_operator (dp_filters dp) = ''All''
      \<longrightarrow> filteredData (applyFilters dp) = rawData dp"
    by (simp add: p1 all)
  have p3: "set (filteredData (applyFilters dp)) \<subseteq> set (rawData dp)"
    by (simp add: p1)
  have p4: "rawData (applyFilters dp) = rawData dp" "dp_filters (applyFilters dp) = dp_filters dp"
    by (simp_all add: applyFilters_def)
  have p5: "filterData f raw = filter (keep_filtered f) raw"
    by (simp add: filterData_def)
  have p6: "set (filterData f raw) \<subseteq> set raw"
    by (simp add: filterData_def)
  show ?thesis
    using p1 [unfolded eq] p2 p3 p4 p5 [unfolded feq] fall p6 by (intro conjI impI) blast+
qed

theorem applyFilters_exact_witness:
  "filteredData (applyFilters (sample_processor\<lparr>dp_filters := all_filters\<lparr>f_state := ''Kerala''\<rparr>\<rparr>))
     = [empty_record\<lparr>state := Some ''Kerala'', city := Some ''Kochi''\<rparr>]
   \<and> filteredData (applyFilters (sample_processor\<lparr>dp_filters := all_filters\<rparr>))
     = rawData sample_processor
   \<and> filterData (admin_defaults\<lparr>af_city := Some ''Kochi'', af_month_start := None\<rparr>) (rawData sample_processor)
     = [empty_record\<lparr>state := Some ''Kerala'', city := Some ''Kochi''\<rparr>]
   \<and> filterData (admin_defaults\<lparr>af_month_start := None\<rparr>) (rawData sample_processor)
     = rawData sample_processor"
  using applyFilters_exact [of "sample_processor\<lparr>dp_filters := all_filters\<lparr>f_state := ''Kerala''\<rparr>\<rparr>"
          "admin_defaults\<lparr>af_city := Some ''Kochi'', af_month_start := None\<rparr>" "rawData sample_processor"]
        applyFilters_exact [of "sample_processor\<lparr>dp_filters := all_filters\<rparr>"
          "admin_defaults\<lparr>af_month_start := None\<rparr>" "rawData sample_processor"]
  by (simp add: sample_processor_def all_filters_def empty_record_def admin_defaults_def
        selects_def truthy_int_def)

text \<open>
  C9. After a single filter update the state holds no dependent value left over from the
  previous parent: updating the state dimension stores the new state and resets city and
  area to "All"; updating the city dimension stores the new city, resets area to "All" and
  leaves the state selection alone. The filtered view is recomputed from the new filters.
\<close>

theorem updateFilter_resets_dependents:
  "(filterName = ''state'' \<longrightarrow>
      f_state (dp_filters (updateFilter filterName v dp)) = v
      \<and> f_city (dp_filters (updateFilter filterName v dp)) = ''All''
      \<and> f_area (dp_filters (updateFilter filterName v dp)) = ''All'')
   \<and> (filterName = ''city'' \<longrightarrow>
      f_city (dp_filters (updateFilter filterName v dp)) = v
      \<and> f_area (dp_filters (updateFilter filterName v dp)) = ''All''
      \<and> f_state (dp_filters (updateFilter filterName v dp)) = f_state (dp_filters dp))
   \<and> filteredData (updateFilter filterName v dp)
       = filter (keep_record (dp_filters (updateFilter filterName v dp))) (rawData dp)"
  by (simp add: updateFilter_def applyFilters_def reset_dependent_def set_filter_def)

theorem updateFilter_resets_dependents_witness:
  "dp_filters (updateFilter ''state'' ''Delhi'' sample_processor) = all_filters\<lparr>f_state := ''Delhi''\<rparr>
   \<and> dp_filters (updateFilter ''city'' ''Pune'' sample_processor) = all_filters\<lparr>f_city := ''Pune''\<rparr>"
  using updateFilter_resets_dependents [of "''state''" "''Delhi''" sample_processor]
        updateFilter_resets_dependents [of "''city''" "''Pune''" sample_processor]
  by (simp add: sample_processor_def all_filters_def updateFilter_def applyFilters_def
        reset_dependent_def set_filter_def)

section \<open>Objects\<close>


























section \<open>The best operator\<close>

lemma js_gt_NaN [simp]: "\<not> js_gt x NaN" "\<not> js_gt NaN y"
  by (cases x; simp) simp

lemma not_js_gt_trans:
  "\<not> js_gt s (Num m) \<Longrightarrow> m \<le> m' \<Longrightarrow> \<not> js_gt s (Num m')"
  by (cases s) auto














section \<open>Empty input\<close>

text \<open>
  C1, as amended. On an empty record sequence \<open>calculateKPIs\<close> returns, without raising, an
  object whose average download, average upload and average score are the number 0 and
  whose best operator is "N/A". The object it returns never has an average-latency or a
  total-records property, on any input; \<open>getAggregatedMetrics\<close>, which computes those two,
  returns \<open>null\<close> on an empty sequence.
\<close>

theorem calculateKPIs_empty:
  "bestOperator (calculateKPIs []) = Some ''N/A''
   \<and> avgDownload (calculateKPIs []) = Some (Number (Num 0))
   \<and> avgUpload (calculateKPIs []) = Some (Number (Num 0))
   \<and> avgScore (calculateKPIs []) = Some (Number (Num 0))
   \<and> avgLatency (calculateKPIs recs) = None
   \<and> avgLatencyMs (calculateKPIs recs) = None
   \<and> totalRecords (calculateKPIs recs) = None
   \<and> recordCount (calculateKPIs recs) = None
   \<and> getAggregatedMetrics [] = None"
  by (simp add: calculateKPIs_def getAggregatedMetrics_def no_metrics_def Let_def)

theorem calculateKPIs_empty_counterexample:
  "\<not> (avgDownload (calculateKPIs []) = Some (Number (Num 0))
       \<and> avgUpload (calculateKPIs []) = Some (Number (Num 0))
       \<and> avgLatency (calculateKPIs []) = Some (Number (Num 0))
       \<and> avgScore (calculateKPIs []) = Some (Number (Num 0))
       \<and> totalRecords (calculateKPIs []) = Some (Number (Num 0))
       \<and> bestOperator (calculateKPIs []) = Some ''N/A'')"
  by (simp add: calculateKPIs_def no_metrics_def)


section \<open>Sorting the table\<close>

lemma mset_insert_sorted: "mset (insert_sorted cmp x ys) = add_mset x (mset ys)"
  by (induction ys) auto

lemma mset_js_sort: "mset (js_sort cmp xs) = mset xs"
  by (induction xs) (auto simp add: js_sort_def mset_insert_sorted)




lemma length_js_sort: "length (js_sort cmp xs) = length xs"
  by (rule mset_eq_length) (rule mset_js_sort)









section \<open>Operator stability\<close>

text \<open>
  C6, as amended. Let the download and upload of a metrics object be the numbers \<open>d\<close> and
  \<open>u\<close> that \<open>parseFloat\<close> reads, and its latency the number \<open>l\<close>. When \<open>l\<close> is not 0, the
  classification is "stable" exactly when \<open>d > 150\<close>, \<open>u > 40\<close> and \<open>l < 40\<close>, "unstable"
  exactly when \<open>d < 100\<close>, \<open>u < 30\<close> and \<open>l > 60\<close>, and "neutral" in every other case. A
  latency of 0 is replaced by the default 50, so the classification is then "neutral".
\<close>

theorem operator_analysis_trend_thresholds:
  assumes "parseFloat (avgDownload m) = Num d" "parseFloat (avgUpload m) = Num u"
    "parseFloat (metric_or (avgLatency m) (avgLatencyMs m)) = Num l"
  shows "(l \<noteq> 0 \<longrightarrow>
           (operator_analysis_trend m = ''stable'' \<longleftrightarrow> d > 150 \<and> u > 40 \<and> l < 40)
         \<and> (operator_analysis_trend m = ''unstable'' \<longleftrightarrow> d < 100 \<and> u < 30 \<and> l > 60)
         \<and> (operator_analysis_trend m = ''neutral'' \<longleftrightarrow>
              \<not> (d > 150 \<and> u > 40 \<and> l < 40) \<and> \<not> (d < 100 \<and> u < 30 \<and> l > 60)))
       \<and> (l = 0 \<longrightarrow> operator_analysis_trend m = ''neutral'')"
  using assms by (auto simp add: operator_analysis_trend_def Let_def)

theorem operator_analysis_trend_thresholds_witness:
  "operator_analysis_trend (sample_metrics 200 50 20) = ''stable''
   \<and> operator_analysis_trend (sample_metrics 50 10 80) = ''unstable''
   \<and> operator_analysis_trend (sample_metrics 120 35 50) = ''neutral''"
proof -
  have p: "parseFloat (avgDownload (sample_metrics d u l)) = Num (round2 d)"
      "parseFloat (avgUpload (sample_metrics d u l)) = Num (round2 u)"
      "parseFloat (metric_or (avgLatency (sample_metrics d u l)) (avgLatencyMs (sample_metrics d u l)))
         = Num (round2 l)" for d u l
    by (simp_all add: sample_metrics_def no_metrics_def metric_or_def)
  have r: "round2 200 = 200" "round2 50 = 50" "round2 20 = 20" "round2 10 = 10" "round2 80 = 80"
      "round2 120 = 120" "round2 35 = 35"
    by (simp_all add: round2_def)
  from operator_analysis_trend_thresholds [OF p [of 200 50 20]]
       operator_analysis_trend_thresholds [OF p [of 50 10 80]]
       operator_analysis_trend_thresholds [OF p [of 120 35 50]]
  show ?thesis by (simp add: r)
qed

text \<open>
  The claim as stated fails for a latency of 0: one record with download 200, upload 50 and
  latency 0 gives metrics that read as 200, 50 and 0, and the classification is "neutral".
\<close>

theorem operator_analysis_trend_counterexample:
  "getAggregatedMetrics [empty_record\<lparr>download_mbps := Some (Num 200), upload_mbps := Some (Num 50),
       latency_ms := Some (Num 0)\<rparr>] = Some (sample_metrics 200 50 0\<lparr>avgNetworkScore := Some (Fixed2 (Num 0)),
       totalRecords := Some (Number (Num 1))\<rparr>)
   \<and> parseFloat (avgDownload (sample_metrics 200 50 0)) = Num 200
   \<and> parseFloat (avgUpload (sample_metrics 200 50 0)) = Num 50
   \<and> parseFloat (avgLatency (sample_metrics 200 50 0)) = Num 0
   \<and> operator_analysis_trend (sample_metrics 200 50 0\<lparr>avgNetworkScore := Some (Fixed2 (Num 0)),
       totalRecords := Some (Number (Num 1))\<rparr>) = ''neutral''"
  by (simp add: getAggregatedMetrics_def sums_step_def empty_record_def sample_metrics_def
        no_metrics_def operator_analysis_trend_def metric_or_def round2_def Let_def)


section \<open>Bucket counts of the chart groupings\<close>




















section \<open>Averages and missing measures\<close>

text \<open>A bucket whose count is 0 is drawn with the average 0.\<close>

lemma guarded_average_zero: "guarded_average s 0 = Num 0"
  by (simp add: guarded_average_def)

text \<open>
  C4. The claim asks every bucket sum to treat a missing measure as 0, as
  \<open>getAggregatedMetrics\<close> does with \<open>|| 0\<close>. On a record without \<open>download_mbps\<close> and
  \<open>confidence_score\<close> the sums of \<open>getChartData\<close> and of \<open>getAreaWiseData\<close> become NaN, and
  so do the averages drawn from them, while \<open>getAggregatedMetrics\<close> reports 0 for the same
  record. (The bucket with count 0, here the non-peak one, is drawn as 0.)
\<close>

theorem getChartData_missing_measure:
  "downloadByOpPeak (getChartData [empty_record\<lparr>operator := Some ''Jio'', is_peak_hour := Some 1\<rparr>])
     = [(''Jio'', \<lparr>peakSum = NaN, peakCount = 1, nonPeakSum = Num 0, nonPeakCount = 0\<rparr>)]
   \<and> renderDownloadOpChart (downloadByOpPeak (getChartData [empty_record\<lparr>operator := Some ''Jio'', is_peak_hour := Some 1\<rparr>]))
     = ([''Jio''], [NaN], [Num 0])
   \<and> renderScoreOpChart (scoreByOp (getChartData [empty_record\<lparr>operator := Some ''Jio'', is_peak_hour := Some 1\<rparr>]))
     = ([''Jio''], [NaN])
   \<and> map row_avgDownload (getAreaWiseData [empty_record\<lparr>operator := Some ''Jio'', is_peak_hour := Some 1\<rparr>])
     = [Fixed2 NaN]
   \<and> map_option avgDownload (getAggregatedMetrics [empty_record\<lparr>operator := Some ''Jio'', is_peak_hour := Some 1\<rparr>])
     = Some (Some (Fixed2 (Num 0)))"
  by code_simp


section \<open>The best operator of an area\<close>
























section \<open>Operator names and letter case\<close>












end
